theory Spec2Isabelle
  imports Main "HOL-Library.AList"
begin

section \<open>The HTTP bootstrap server of backend/server.js\<close>

text \<open>
  The module is a script: it builds an Express application, registers three middleware
  functions, starts a Mongoose connection, mounts the route of the root path and the
  routes of an external module, and calls listen. Its effects are modelled by explicit
  state passing on a record \<open>world\<close>; what happens after the script has run (the
  connection promise settles, the socket is bound, requests arrive) is a function
  \<open>step\<close> from a world and an event of the environment to the next world.
\<close>

subsection \<open>JavaScript values and the operator ||\<close>

text \<open>
  The values the script computes with: \<open>undefined\<close>, strings and numbers. An
  environment variable is a string or \<open>undefined\<close>. A value is falsy when it is
  \<open>undefined\<close>, the empty string or the number 0.
\<close>

datatype jsval = Undefined | Str string | Num nat

fun truthy :: "jsval \<Rightarrow> bool" where
  "truthy Undefined = False"
| "truthy (Str s) = (s \<noteq> [])"
| "truthy (Num n) = (n \<noteq> 0)"

definition js_or :: "jsval \<Rightarrow> jsval \<Rightarrow> jsval" where
  "js_or a b = (if truthy a then a else b)"

type_synonym environ = "string \<rightharpoonup> string"

definition env_get :: "environ \<Rightarrow> string \<Rightarrow> jsval" where
  "env_get env k = (case env k of None \<Rightarrow> Undefined | Some s \<Rightarrow> Str s)"

text \<open>The text of a value inside a template literal.\<close>

definition digit_char :: "nat \<Rightarrow> char" where
  "digit_char d = ''0123456789'' ! d"

fun string_of_nat :: "nat \<Rightarrow> string" where
  "string_of_nat n =
     (if n < 10 then [digit_char n] else string_of_nat (n div 10) @ [digit_char (n mod 10)])"

declare string_of_nat.simps [simp del]

fun js_to_string :: "jsval \<Rightarrow> string" where
  "js_to_string Undefined = ''undefined''"
| "js_to_string (Str s) = s"
| "js_to_string (Num n) = string_of_nat n"

subsection \<open>Requests, responses and the middleware stack\<close>

datatype json =
    JNull
  | JBool bool
  | JNumber int
  | JString string
  | JArray "json list"
  | JObject "(string \<times> json) list"

datatype http_method = GET | POST | PUT | DELETE

text \<open>
  The body of a request as the body parsers find it when they read it. What a parser
  makes of a body it reads is a verdict: the body is accepted, with the value it denotes,
  or rejected because its text is malformed, because it is larger than the limit of the
  parser (100kb by default), or because its charset or content encoding is not
  supported. A body is that of a JSON content type, that of a URL-encoded form, or one of
  another content type, which no parser reads. Preflight requests (method OPTIONS),
  which the cross-origin middleware answers by itself, are outside the model.
\<close>

datatype rejection = Malformed | TooLarge | Unsupported

fun rejection_status :: "rejection \<Rightarrow> nat" where
  "rejection_status Malformed = 400"
| "rejection_status TooLarge = 413"
| "rejection_status Unsupported = 415"

datatype 'a verdict = Rejected rejection | Accepted 'a

datatype payload =
    NoPayload
  | JsonPayload "json verdict"
  | FormPayload "(string \<times> string) list verdict"
  | OtherPayload string

text \<open>
  The field \<open>body\<close> of a request object: not set, the empty object, a parsed JSON value,
  or the pairs of a form together with the \<open>extended\<close> option of the parser that read
  them.
\<close>

datatype parsed_body =
    NotParsed
  | EmptyObject
  | FromJson json
  | FromForm bool "(string \<times> string) list"

text \<open>
  \<open>req_fresh\<close> is \<open>req.fresh\<close> of Express for a conditional request: whether the
  validators the request carries (If-None-Match, If-Modified-Since, with Cache-Control)
  match the response that is about to be sent. It is read for conditional requests only.
\<close>

record request =
  req_method :: http_method
  req_path :: string
  req_query :: string
  req_headers :: "(string \<times> string) list"
  req_payload :: payload
  req_body :: parsed_body
  req_fresh :: bool

text \<open>The names of headers are compared without regard to case.\<close>

definition lower_char :: "char \<Rightarrow> char" where
  "lower_char c =
     (case map_of (zip ''ABCDEFGHIJKLMNOPQRSTUVWXYZ'' ''abcdefghijklmnopqrstuvwxyz'') c of
        None \<Rightarrow> c
      | Some d \<Rightarrow> d)"

definition has_header :: "string \<Rightarrow> request \<Rightarrow> bool" where
  "has_header name req = (name \<in> set (map (\<lambda>kv. map lower_char (fst kv)) (req_headers req)))"

text \<open>
  A request has a body when it announces one, by a Content-Length or a Transfer-Encoding
  header. It is conditional when it carries a validator of a cached copy.
\<close>

definition has_body :: "request \<Rightarrow> bool" where
  "has_body req = (has_header ''transfer-encoding'' req \<or> has_header ''content-length'' req)"

definition conditional :: "request \<Rightarrow> bool" where
  "conditional req = (has_header ''if-none-match'' req \<or> has_header ''if-modified-since'' req)"

datatype content = NoContent | JsonContent json | TextContent string | ErrorPage

record response =
  status :: nat
  res_headers :: "(string \<times> string) list"
  res_body :: content

text \<open>A response object starts with status 200, no header of the application and no body.\<close>

definition new_response :: response where
  "new_response = \<lparr>status = 200, res_headers = [], res_body = NoContent\<rparr>"

definition set_header :: "string \<Rightarrow> string \<Rightarrow> response \<Rightarrow> response" where
  "set_header k v res = res\<lparr>res_headers := AList.update k v (res_headers res)\<rparr>"

definition remove_header :: "string \<Rightarrow> response \<Rightarrow> response" where
  "remove_header k res = res\<lparr>res_headers := AList.delete k (res_headers res)\<rparr>"

text \<open>A middleware function or a handler either passes on (it calls next) or ends the response.\<close>

datatype outcome = Next request response | Done response

text \<open>
  The three middleware functions, with the options server.js builds them with:
  \<open>cors()\<close>, \<open>express.json()\<close> and \<open>express.urlencoded({ extended: ... })\<close>.
\<close>

datatype middleware = Cors | JsonParser | Urlencoded bool

text \<open>
  With its default options the JSON parser is strict: it accepts objects and arrays only.
\<close>

fun strict_ok :: "json \<Rightarrow> bool" where
  "strict_ok (JObject kvs) = True"
| "strict_ok (JArray vs) = True"
| "strict_ok v = False"

text \<open>The answer of the default error handler of Express to an error with a status.\<close>

definition error_response :: "nat \<Rightarrow> response \<Rightarrow> response" where
  "error_response st res = res\<lparr>status := st, res_body := ErrorPage\<rparr>"

definition default_body :: "request \<Rightarrow> request" where
  "default_body req = (if req_body req = NotParsed then req\<lparr>req_body := EmptyObject\<rparr> else req)"

text \<open>
  Modelled from the spec: the packages cors and express are not part of the repository's
  sources. The spec describes them as (a) a cross-origin policy allowing all origins (no
  restriction list), (b) a JSON body parser rejecting malformed JSON bodies with a client
  error, (c) a URL-encoded body parser with the nested-object extension; subsequent route
  handlers receive the parsed body on the request, and for request-level parsing errors
  the default behaviour of the framework applies. That behaviour, for the parsers with
  the options of server.js: a request without a body, or with a body of another content
  type, is passed on; a body the parser cannot take is answered with the status of the
  rejection (400, 413 or 415), and so is a JSON value that is neither an object nor an
  array (400). A rejected request is answered on the response object as the earlier
  middleware left it.
\<close>

fun run_middleware :: "middleware \<Rightarrow> request \<Rightarrow> response \<Rightarrow> outcome" where
  "run_middleware Cors req res = Next req (set_header ''Access-Control-Allow-Origin'' ''*'' res)"
| "run_middleware JsonParser req res =
     (if \<not> has_body req then Next (default_body req) res
      else case req_payload req of
        JsonPayload (Rejected why) \<Rightarrow> Done (error_response (rejection_status why) res)
      | JsonPayload (Accepted v) \<Rightarrow>
          if strict_ok v then Next (req\<lparr>req_body := FromJson v\<rparr>) res
          else Done (error_response 400 res)
      | _ \<Rightarrow> Next (default_body req) res)"
| "run_middleware (Urlencoded extended) req res =
     (if \<not> has_body req then Next (default_body req) res
      else case req_payload req of
        FormPayload (Rejected why) \<Rightarrow> Done (error_response (rejection_status why) res)
      | FormPayload (Accepted kvs) \<Rightarrow> Next (req\<lparr>req_body := FromForm extended kvs\<rparr>) res
      | _ \<Rightarrow> Next (default_body req) res)"

text \<open>
  \<open>res.send\<close> of Express, with which \<open>res.json\<close> ends, is not among the sources
  either, and the spec leaves it to the framework. It answers a GET request that is
  conditional and fresh, when the status is a success, with 304 and no body, and removes
  the headers that describe the body.
\<close>

definition express_send :: "request \<Rightarrow> response \<Rightarrow> response" where
  "express_send req res =
     (if req_method req = GET \<and> conditional req \<and> req_fresh req
         \<and> 200 \<le> status res \<and> status res < 300
      then (remove_header ''Content-Type''
             (remove_header ''Content-Length''
               (remove_header ''Transfer-Encoding'' res)))\<lparr>status := 304, res_body := NoContent\<rparr>
      else res)"

text \<open>
  A layer of the application's stack: a middleware function (app.use) or a route (app.get
  and the like), with its method, its path and its handler.
\<close>

datatype layer =
    Mw middleware
  | Rt http_method string "request \<Rightarrow> response \<Rightarrow> outcome"

text \<open>
  Express runs the layers in the order of their registration; a route runs when method
  and path match, and the response its handler ends is sent by \<open>res.send\<close>; when no
  layer ends the response the answer is 404.
\<close>

fun dispatch :: "layer list \<Rightarrow> request \<Rightarrow> response \<Rightarrow> response" where
  "dispatch [] req res = error_response 404 res"
| "dispatch (Mw m # ls) req res =
     (case run_middleware m req res of
        Done r \<Rightarrow> r
      | Next req' res' \<Rightarrow> dispatch ls req' res')"
| "dispatch (Rt m p h # ls) req res =
     (if req_method req = m \<and> req_path req = p
      then (case h req res of
              Done r \<Rightarrow> express_send req r
            | Next req' res' \<Rightarrow> dispatch ls req' res')
      else dispatch ls req res)"

subsection \<open>The handler of the root path (server.js, lines 28 to 30)\<close>

text \<open>\<open>res.json(v)\<close> sets the content type and sends \<open>v\<close>; the status stays as it is.\<close>

definition res_json :: "json \<Rightarrow> response \<Rightarrow> response" where
  "res_json v res =
     (set_header ''Content-Type'' ''application/json; charset=utf-8'' res)\<lparr>res_body := JsonContent v\<rparr>"

definition welcome_message :: json where
  "welcome_message = JObject [(''message'', JString ''Welcome to Test application.'')]"

definition root_handler :: "request \<Rightarrow> response \<Rightarrow> outcome" where
  "root_handler req res = Done (res_json welcome_message res)"

subsection \<open>The process: application, database connection, socket, console, exit\<close>

datatype db_state = NotAttempted | Pending | Connected | Failed

record connect_options =
  useNewUrlParser :: bool
  useUnifiedTopology :: bool

record world =
  stack :: "layer list"
  db :: db_state
  connect_calls :: "(string \<times> connect_options) list"
  listen_calls :: "(jsval \<times> string) list"
  listening :: bool
  console :: "jsval list list"
  exitCode :: "nat option"
  exited :: "nat option"

definition init_world :: world where
  "init_world =
     \<lparr>stack = [], db = NotAttempted, connect_calls = [], listen_calls = [],
      listening = False, console = [], exitCode = None, exited = None\<rparr>"

definition app_use :: "middleware \<Rightarrow> world \<Rightarrow> world" where
  "app_use m w = w\<lparr>stack := stack w @ [Mw m]\<rparr>"

definition app_get :: "string \<Rightarrow> (request \<Rightarrow> response \<Rightarrow> outcome) \<Rightarrow> world \<Rightarrow> world" where
  "app_get p h w = w\<lparr>stack := stack w @ [Rt GET p h]\<rparr>"

text \<open>\<open>connect\<close> returns a promise at once; the connection is pending until it settles.\<close>

definition mongoose_connect :: "string \<Rightarrow> connect_options \<Rightarrow> world \<Rightarrow> world" where
  "mongoose_connect url opts w =
     w\<lparr>connect_calls := connect_calls w @ [(url, opts)], db := Pending\<rparr>"

text \<open>
  The route module \<open>./app/routes/turorial.routes\<close> is not among the sources: it is a
  function of the application that registers its own layers, here the parameter
  \<open>routes\<close>.
\<close>

definition mount_routes :: "layer list \<Rightarrow> world \<Rightarrow> world" where
  "mount_routes routes w = w\<lparr>stack := stack w @ routes\<rparr>"

definition app_listen :: "jsval \<Rightarrow> string \<Rightarrow> world \<Rightarrow> world" where
  "app_listen port host w = w\<lparr>listen_calls := listen_calls w @ [(port, host)]\<rparr>"

definition console_log :: "jsval list \<Rightarrow> world \<Rightarrow> world" where
  "console_log args w = w\<lparr>console := console w @ [args]\<rparr>"

text \<open>
  \<open>process.exit(code)\<close> ends the process. Without an argument the status is
  \<open>process.exitCode\<close> when that has been assigned, and 0 otherwise.
\<close>

definition process_exit :: "nat option \<Rightarrow> world \<Rightarrow> world" where
  "process_exit code w =
     w\<lparr>exited := Some (case code of
                        Some c \<Rightarrow> c
                      | None \<Rightarrow> (case exitCode w of Some c \<Rightarrow> c | None \<Rightarrow> 0))\<rparr>"

subsection \<open>The script (server.js, top to bottom)\<close>

definition PORT :: "environ \<Rightarrow> jsval" where
  "PORT env = js_or (env_get env ''PORT'') (Num 8080)"

definition the_options :: connect_options where
  "the_options = \<lparr>useNewUrlParser = True, useUnifiedTopology = True\<rparr>"

text \<open>
  \<open>url\<close> is \<open>db.url\<close> of the module \<open>./app/models\<close>, which is not among the sources.
\<close>

definition server_js :: "environ \<Rightarrow> string \<Rightarrow> layer list \<Rightarrow> world \<Rightarrow> world" where
  "server_js env url routes w0 =
     (let w1 = app_use Cors w0;
          w2 = app_use JsonParser w1;
          w3 = app_use (Urlencoded True) w2;
          w4 = mongoose_connect url the_options w3;
          w5 = app_get ''/'' root_handler w4;
          w6 = mount_routes routes w5
      in app_listen (PORT env) ''0.0.0.0'' w6)"

definition boot :: "environ \<Rightarrow> string \<Rightarrow> layer list \<Rightarrow> world" where
  "boot env url routes = server_js env url routes init_world"

subsection \<open>The callbacks of the script\<close>

definition on_connected :: "world \<Rightarrow> world" where
  "on_connected w = console_log [Str ''Connected to the database!''] w"

definition on_connect_error :: "jsval \<Rightarrow> world \<Rightarrow> world" where
  "on_connect_error err w =
     process_exit None (console_log [Str ''Cannot connect to the database!'', err] w)"

definition on_listening :: "jsval \<Rightarrow> world \<Rightarrow> world" where
  "on_listening port w =
     console_log [Str (''Server is running on port '' @ js_to_string port @ ''.'')] w"

subsection \<open>The event loop\<close>

text \<open>
  After the script the environment decides what happens next: the connection promise
  resolves or rejects, the socket is bound, a request arrives. An event that cannot
  happen in a world (the process has exited, the promise has settled, the socket is not
  bound) gives \<open>None\<close>. The events are those the script has a callback or a handler
  for; a failure of the runtime that the script does not handle (a module that cannot be
  loaded, a port that cannot be bound) is not an event of the model.
\<close>

datatype event = DbResolve | DbReject jsval | Bind | Request request

definition serve :: "world \<Rightarrow> request \<Rightarrow> response option" where
  "serve w req =
     (if listening w \<and> exited w = None then Some (dispatch (stack w) req new_response)
      else None)"

fun step :: "world \<Rightarrow> event \<Rightarrow> world option" where
  "step w DbResolve =
     (if exited w = None \<and> db w = Pending then Some (on_connected (w\<lparr>db := Connected\<rparr>))
      else None)"
| "step w (DbReject err) =
     (if exited w = None \<and> db w = Pending then Some (on_connect_error err (w\<lparr>db := Failed\<rparr>))
      else None)"
| "step w Bind =
     (case listen_calls w of
        [] \<Rightarrow> None
      | (port, host) # _ \<Rightarrow>
          if exited w = None \<and> \<not> listening w
          then Some (on_listening port (w\<lparr>listening := True\<rparr>))
          else None)"
| "step w (Request req) =
     (case serve w req of None \<Rightarrow> None | Some res \<Rightarrow> Some w)"

fun run :: "world \<Rightarrow> event list \<Rightarrow> world option" where
  "run w [] = Some w"
| "run w (e # es) = (case step w e of None \<Rightarrow> None | Some w' \<Rightarrow> run w' es)"

text \<open>The answer to a request that arrives after the events \<open>evs\<close>.\<close>

definition respond :: "world \<Rightarrow> event list \<Rightarrow> request \<Rightarrow> response option" where
  "respond w evs req = (case run w evs of None \<Rightarrow> None | Some w' \<Rightarrow> serve w' req)"


section \<open>Properties\<close>

subsection \<open>The state after the script\<close>

lemma stack_boot:
  "stack (boot env url routes) =
     Mw Cors # Mw JsonParser # Mw (Urlencoded True) # Rt GET ''/'' root_handler # routes"
  by (simp add: boot_def server_js_def init_world_def app_use_def mongoose_connect_def
      app_get_def mount_routes_def app_listen_def)

lemma db_boot: "db (boot env url routes) = Pending"
  by (simp add: boot_def server_js_def init_world_def app_use_def mongoose_connect_def
      app_get_def mount_routes_def app_listen_def)

lemma exited_boot: "exited (boot env url routes) = None"
  by (simp add: boot_def server_js_def init_world_def app_use_def mongoose_connect_def
      app_get_def mount_routes_def app_listen_def)

lemma exitCode_boot: "exitCode (boot env url routes) = None"
  by (simp add: boot_def server_js_def init_world_def app_use_def mongoose_connect_def
      app_get_def mount_routes_def app_listen_def)

lemma listening_boot: "\<not> listening (boot env url routes)"
  by (simp add: boot_def server_js_def init_world_def app_use_def mongoose_connect_def
      app_get_def mount_routes_def app_listen_def)

lemma listen_calls_boot: "listen_calls (boot env url routes) = [(PORT env, ''0.0.0.0'')]"
  by (simp add: boot_def server_js_def init_world_def app_use_def mongoose_connect_def
      app_get_def mount_routes_def app_listen_def)

lemma connect_calls_boot: "connect_calls (boot env url routes) = [(url, the_options)]"
  by (simp add: boot_def server_js_def init_world_def app_use_def mongoose_connect_def
      app_get_def mount_routes_def app_listen_def)

lemmas boot_unfold = boot_def server_js_def init_world_def app_use_def mongoose_connect_def
  app_get_def mount_routes_def app_listen_def

lemmas eval_defs = boot_unfold on_listening_def on_connected_def on_connect_error_def
  console_log_def process_exit_def serve_def new_response_def set_header_def PORT_def
  js_or_def env_get_def res_json_def root_handler_def the_options_def
  has_body_def conditional_def has_header_def lower_char_def default_body_def
  error_response_def express_send_def remove_header_def

subsection \<open>What the events preserve\<close>

lemma step_stack: "step w e = Some w' \<Longrightarrow> stack w' = stack w"
  by (cases e)
     (auto simp: on_connected_def on_connect_error_def on_listening_def console_log_def
        process_exit_def split: if_splits list.splits option.splits)

lemma step_connect_calls: "step w e = Some w' \<Longrightarrow> connect_calls w' = connect_calls w"
  by (cases e)
     (auto simp: on_connected_def on_connect_error_def on_listening_def console_log_def
        process_exit_def split: if_splits list.splits option.splits)

lemma step_exitCode: "step w e = Some w' \<Longrightarrow> exitCode w' = exitCode w"
  by (cases e)
     (auto simp: on_connected_def on_connect_error_def on_listening_def console_log_def
        process_exit_def split: if_splits list.splits option.splits)

lemma step_after_exit: "exited w \<noteq> None \<Longrightarrow> step w e = None"
  by (cases e) (auto simp: serve_def split: if_splits list.splits option.splits)

lemma step_exit:
  assumes "step w e = Some w'" and "exited w' \<noteq> None"
  shows "(\<exists>err. e = DbReject err) \<and> db w = Pending \<and> exited w = None \<and> db w' = Failed"
  using assms
  by (cases e)
     (auto simp: on_connected_def on_connect_error_def on_listening_def console_log_def
        process_exit_def serve_def split: if_splits list.splits option.splits)

lemma run_append:
  "run w (es @ fs) = (case run w es of None \<Rightarrow> None | Some w' \<Rightarrow> run w' fs)"
  by (induction es arbitrary: w) (auto split: option.splits)

lemma run_snoc:
  "run w (es @ [e]) = (case run w es of None \<Rightarrow> None | Some w' \<Rightarrow> step w' e)"
  by (simp add: run_append split: option.splits)

lemma run_stack: "run w es = Some w' \<Longrightarrow> stack w' = stack w"
  by (induction es arbitrary: w) (auto split: option.splits dest: step_stack)

lemma run_connect_calls: "run w es = Some w' \<Longrightarrow> connect_calls w' = connect_calls w"
  by (induction es arbitrary: w) (auto split: option.splits dest: step_connect_calls)

lemma run_exitCode: "run w es = Some w' \<Longrightarrow> exitCode w' = exitCode w"
  by (induction es arbitrary: w) (auto split: option.splits dest: step_exitCode)

lemma run_exit:
  assumes "run w es = Some w'" and "exited w = None" and "exited w' \<noteq> None"
  shows "\<exists>pre err v. es = pre @ [DbReject err] \<and> run w pre = Some v \<and> db v = Pending
           \<and> exited v = None \<and> db w' = Failed"
  using assms
proof (induction es arbitrary: w' rule: rev_induct)
  case Nil
  then show ?case by simp
next
  case (snoc e es)
  from snoc.prems(1) obtain v where v: "run w es = Some v" and s: "step v e = Some w'"
    by (auto simp: run_snoc split: option.splits)
  from step_exit [OF s snoc.prems(3)] obtain err where
    "e = DbReject err" "db v = Pending" "exited v = None" "db w' = Failed"
    by blast
  with v show ?case by blast
qed

lemma exited_imp_failed:
  assumes "run (boot env url routes) es = Some w" and "exited w \<noteq> None"
  shows "db w = Failed"
  using run_exit [OF assms(1) exited_boot assms(2)] by blast


subsection \<open>The root path\<close>




text \<open>
  A conditional GET request to the root path whose validators match is answered 304
  without a body, by \<open>res.send\<close>; this is why the amended C1 speaks of requests
  without a cache validator.
\<close>

lemma root_conditional_not_modified:
  "map_option (\<lambda>res. (status res, res_body res))
     (respond (boot Map.empty ''mongodb://mongo:27017/dd_db'' []) [Bind]
        \<lparr>req_method = GET, req_path = ''/'', req_query = [],
         req_headers = [(''If-None-Match'', ''*'')],
         req_payload = NoPayload, req_body = NotParsed, req_fresh = True\<rparr>)
   = Some (304, NoContent)"
  by (simp add: respond_def eval_defs)


subsection \<open>The database connection\<close>

text \<open>
  C7. The script opens the connection once, to the URL of the models module, with
  the options \<open>useNewUrlParser\<close> and \<open>useUnifiedTopology\<close> both enabled.
\<close>

theorem connect_options_modern:
  "\<exists>opts. connect_calls (boot env url routes) = [(url, opts)]
      \<and> useNewUrlParser opts \<and> useUnifiedTopology opts"
  by (simp add: connect_calls_boot the_options_def)

text \<open>
  C2 (as amended). When the connection attempt fails, in any state the program can be in
  while the connection is pending, the rejection handler logs the message with the
  error and ends the process at once with the status of an exit call without argument,
  which is 0 since the program never assigns \<open>process.exitCode\<close>. The connection is
  not attempted again (the single call of the script stays the only one) and no event
  is handled afterwards, so nothing more is logged.
\<close>

theorem connect_failure_is_fatal:
  assumes "run (boot env url routes) evs = Some w" and "db w = Pending"
  shows "\<exists>w'. step w (DbReject err) = Some w'
           \<and> console w' = console w @ [[Str ''Cannot connect to the database!'', err]]
           \<and> exited w' = Some 0
           \<and> connect_calls w' = [(url, the_options)]
           \<and> (\<forall>e. step w' e = None)"
proof -
  have x: "exited w = None"
    using exited_imp_failed [OF assms(1)] assms(2) by fastforce
  have c: "exitCode w = None"
    using run_exitCode [OF assms(1)] by (simp add: exitCode_boot)
  have k: "connect_calls w = [(url, the_options)]"
    using run_connect_calls [OF assms(1)] by (simp add: connect_calls_boot)
  let ?w' = "on_connect_error err (w\<lparr>db := Failed\<rparr>)"
  have s: "step w (DbReject err) = Some ?w'"
    using x assms(2) by simp
  have e: "exited ?w' = Some 0"
    using c by (simp add: on_connect_error_def process_exit_def console_log_def)
  have "\<forall>e. step ?w' e = None"
    using e by (simp add: step_after_exit)
  moreover have "console ?w' = console w @ [[Str ''Cannot connect to the database!'', err]]"
    by (simp add: on_connect_error_def process_exit_def console_log_def)
  moreover have "connect_calls ?w' = [(url, the_options)]"
    using k by (simp add: on_connect_error_def process_exit_def console_log_def)
  ultimately show ?thesis using s e by blast
qed

theorem connect_failure_is_fatal_witness:
  "\<exists>w. run (boot Map.empty ''mongodb://mongo:27017/dd_db'' []) [Bind] = Some w \<and> db w = Pending
     \<and> (\<exists>w'. step w (DbReject (Str ''ECONNREFUSED'')) = Some w'
           \<and> console w' = console w @ [[Str ''Cannot connect to the database!'', Str ''ECONNREFUSED'']]
           \<and> exited w' = Some 0
           \<and> connect_calls w' = [(''mongodb://mongo:27017/dd_db'', the_options)]
           \<and> (\<forall>e. step w' e = None))"
proof -
  obtain w where w: "run (boot Map.empty ''mongodb://mongo:27017/dd_db'' []) [Bind] = Some w"
    by (simp add: eval_defs)
  have p: "db w = Pending"
    using w by (auto simp: eval_defs)
  show ?thesis
    using w p connect_failure_is_fatal [OF w p, of "Str ''ECONNREFUSED''"] by blast
qed

text \<open>
  C2 as stated fails in its last part: the exit status after a failed connection is 0,
  not a non-zero status.
\<close>

theorem connect_failure_exits_zero:
  "map_option exited
     (run (boot Map.empty ''mongodb://mongo:27017/dd_db'' []) [DbReject (Str ''ECONNREFUSED'')])
   = Some (Some 0)"
  by (simp add: eval_defs)

text \<open>
  C8. The script itself never ends the process, and a process that has exited after
  some events did so in its last event, the rejection of the connection promise, from a
  state in which the connection was pending and the process was running. Middleware
  registration, route mounting and listen are total functions of the world that leave
  \<open>exited\<close> alone.
\<close>

theorem exit_only_on_connect_failure:
  "exited (boot env url routes) = None
   \<and> (run (boot env url routes) evs = Some w \<and> exited w \<noteq> None \<longrightarrow>
        (\<exists>pre err v. evs = pre @ [DbReject err] \<and> run (boot env url routes) pre = Some v
            \<and> db v = Pending \<and> exited v = None \<and> db w = Failed))"
  using run_exit [of "boot env url routes" evs w] by (simp add: exited_boot)

theorem exit_only_on_connect_failure_witness:
  "\<exists>w. exited (boot Map.empty ''mongodb://mongo:27017/dd_db'' []) = None
     \<and> run (boot Map.empty ''mongodb://mongo:27017/dd_db'' []) [Bind, DbReject (Str ''ECONNREFUSED'')] = Some w
     \<and> exited w \<noteq> None
     \<and> (\<exists>pre err v. [Bind, DbReject (Str ''ECONNREFUSED'')] = pre @ [DbReject err]
            \<and> run (boot Map.empty ''mongodb://mongo:27017/dd_db'' []) pre = Some v
            \<and> db v = Pending \<and> exited v = None \<and> db w = Failed)"
proof -
  obtain w where
    w: "run (boot Map.empty ''mongodb://mongo:27017/dd_db'' []) [Bind, DbReject (Str ''ECONNREFUSED'')] = Some w"
    by (simp add: eval_defs)
  have x: "exited w \<noteq> None"
    using w by (auto simp: eval_defs)
  show ?thesis
    using w x
      exit_only_on_connect_failure [of Map.empty "''mongodb://mongo:27017/dd_db''" "[]"
        "[Bind, DbReject (Str ''ECONNREFUSED'')]" w]
    by blast
qed

subsection \<open>Listening\<close>

lemma PORT_cases:
  "PORT env = (case env ''PORT'' of None \<Rightarrow> Num 8080
               | Some s \<Rightarrow> if s = [] then Num 8080 else Str s)"
  by (simp add: PORT_def js_or_def env_get_def split: option.splits)

lemma step_bind_boot:
  "step (boot env url routes) Bind
     = Some (on_listening (PORT env) ((boot env url routes)\<lparr>listening := True\<rparr>))"
  by (simp add: listen_calls_boot exited_boot listening_boot)

lemma run_bind_boot:
  "run (boot env url routes) (Bind # es)
     = run (on_listening (PORT env) ((boot env url routes)\<lparr>listening := True\<rparr>)) es"
  by (simp add: step_bind_boot del: step.simps)

text \<open>
  C3. The script calls listen last, on a world whose stack holds the middleware and the
  routes and whose connection is pending, whatever the environment, the URL and the
  route module are; the socket can be bound while the connection is still pending, and
  the connection can succeed afterwards.
\<close>

theorem listen_not_gated_on_connect:
  "(\<exists>w6. boot env url routes = app_listen (PORT env) ''0.0.0.0'' w6
        \<and> stack w6 = Mw Cors # Mw JsonParser # Mw (Urlencoded True)
                       # Rt GET ''/'' root_handler # routes
        \<and> db w6 = Pending \<and> listen_calls w6 = [])
   \<and> (\<exists>w. run (boot env url routes) [Bind] = Some w
        \<and> listening w \<and> db w = Pending \<and> exited w = None)
   \<and> (\<exists>w. run (boot env url routes) [Bind, DbResolve] = Some w
        \<and> listening w \<and> db w = Connected \<and> exited w = None)"
proof (intro conjI)
  let ?w6 = "mount_routes routes
               (app_get ''/'' root_handler
                 (mongoose_connect url the_options
                   (app_use (Urlencoded True)
                     (app_use JsonParser (app_use Cors init_world)))))"
  have "boot env url routes = app_listen (PORT env) ''0.0.0.0'' ?w6"
    by (simp add: boot_def server_js_def Let_def)
  moreover have "stack ?w6 = Mw Cors # Mw JsonParser # Mw (Urlencoded True)
                     # Rt GET ''/'' root_handler # routes"
    by (simp add: init_world_def app_use_def mongoose_connect_def app_get_def
        mount_routes_def)
  moreover have "db ?w6 = Pending \<and> listen_calls ?w6 = []"
    by (simp add: init_world_def app_use_def mongoose_connect_def app_get_def
        mount_routes_def)
  ultimately show "\<exists>w6. boot env url routes = app_listen (PORT env) ''0.0.0.0'' w6
        \<and> stack w6 = Mw Cors # Mw JsonParser # Mw (Urlencoded True)
                       # Rt GET ''/'' root_handler # routes
        \<and> db w6 = Pending \<and> listen_calls w6 = []"
    by blast
next
  show "\<exists>w. run (boot env url routes) [Bind] = Some w
        \<and> listening w \<and> db w = Pending \<and> exited w = None"
    by (simp only: run_bind_boot)
       (simp add: on_listening_def console_log_def db_boot exited_boot)
next
  show "\<exists>w. run (boot env url routes) [Bind, DbResolve] = Some w
        \<and> listening w \<and> db w = Connected \<and> exited w = None"
    by (simp only: run_bind_boot)
       (simp add: on_listening_def on_connected_def console_log_def db_boot exited_boot)
qed

text \<open>
  C4. The script calls listen once, with the host \<open>0.0.0.0\<close> (all interfaces) and
  the value of the environment variable PORT as the port, or 8080 when PORT is unset
  (or empty, see C9).
\<close>

theorem listen_all_interfaces_on_port:
  "listen_calls (boot env url routes)
     = [(case env ''PORT'' of None \<Rightarrow> Num 8080
         | Some s \<Rightarrow> if s = [] then Num 8080 else Str s, ''0.0.0.0'')]"
  by (simp add: listen_calls_boot PORT_cases)

text \<open>
  C9 (as amended). The fallback applies to every falsy value of PORT, and a value of
  PORT is falsy exactly when the variable is unset or is the empty string: then listen is
  called with 8080. Every non-empty string is truthy and is passed on as it is.
\<close>

theorem port_fallback_on_falsy:
  "(\<not> truthy (env_get env ''PORT'') \<longrightarrow>
      listen_calls (boot env url routes) = [(Num 8080, ''0.0.0.0'')])
   \<and> truthy (env_get env ''PORT'') = (env ''PORT'' \<noteq> None \<and> env ''PORT'' \<noteq> Some [])"
  by (auto simp: listen_calls_boot PORT_def js_or_def env_get_def split: option.splits)

theorem port_fallback_on_falsy_witness:
  "\<not> truthy (env_get (Map.empty(''PORT'' \<mapsto> [])) ''PORT'')
   \<and> listen_calls (boot (Map.empty(''PORT'' \<mapsto> [])) ''mongodb://mongo:27017/dd_db'' [])
       = [(Num 8080, ''0.0.0.0'')]"
  using port_fallback_on_falsy [of "Map.empty(''PORT'' \<mapsto> [])" "''mongodb://mongo:27017/dd_db''" "[]"]
  by (simp add: env_get_def)

text \<open>
  C9 as stated fails for the string \<open>"0"\<close>: it is not empty, hence truthy, and the
  script calls listen with \<open>"0"\<close>, not with 8080.
\<close>

theorem port_zero_string_not_replaced:
  "listen_calls (boot (Map.empty(''PORT'' \<mapsto> ''0'')) ''mongodb://mongo:27017/dd_db'' [])
     = [(Str ''0'', ''0.0.0.0'')]"
  by (simp add: eval_defs)

subsection \<open>Middleware\<close>

text \<open>
  C5. When the first route is mounted the stack holds exactly the cross-origin
  middleware, the JSON body parser and the URL-encoded body parser with the option
  \<open>extended\<close> enabled, in this order; the routes come after them in the final stack.
\<close>

theorem middleware_before_routes:
  "(\<exists>w3. stack w3 = [Mw Cors, Mw JsonParser, Mw (Urlencoded True)]
       \<and> boot env url routes
           = app_listen (PORT env) ''0.0.0.0''
               (mount_routes routes
                 (app_get ''/'' root_handler (mongoose_connect url the_options w3))))
   \<and> stack (boot env url routes)
       = [Mw Cors, Mw JsonParser, Mw (Urlencoded True)] @ Rt GET ''/'' root_handler # routes"
proof
  have "stack (app_use (Urlencoded True) (app_use JsonParser (app_use Cors init_world)))
          = [Mw Cors, Mw JsonParser, Mw (Urlencoded True)]"
    by (simp add: app_use_def init_world_def)
  moreover have "boot env url routes
      = app_listen (PORT env) ''0.0.0.0''
          (mount_routes routes
            (app_get ''/'' root_handler
              (mongoose_connect url the_options
                (app_use (Urlencoded True) (app_use JsonParser (app_use Cors init_world))))))"
    by (simp add: boot_def server_js_def Let_def)
  ultimately show "\<exists>w3. stack w3 = [Mw Cors, Mw JsonParser, Mw (Urlencoded True)]
       \<and> boot env url routes
           = app_listen (PORT env) ''0.0.0.0''
               (mount_routes routes
                 (app_get ''/'' root_handler (mongoose_connect url the_options w3)))"
    by blast
next
  show "stack (boot env url routes)
       = [Mw Cors, Mw JsonParser, Mw (Urlencoded True)] @ Rt GET ''/'' root_handler # routes"
    by (simp add: stack_boot)
qed

lemma express_send_keeps_cors:
  "map_of (res_headers res) ''Access-Control-Allow-Origin'' = Some ''*'' \<Longrightarrow>
   map_of (res_headers (express_send req res)) ''Access-Control-Allow-Origin'' = Some ''*''"
  by (simp add: express_send_def remove_header_def delete_conv')

lemma root_handler_keeps_cors:
  "map_of (res_headers res) ''Access-Control-Allow-Origin'' = Some ''*'' \<Longrightarrow>
   map_of (res_headers (res_json v res)) ''Access-Control-Allow-Origin'' = Some ''*''"
  by (simp add: res_json_def set_header_def update_conv')

lemma parser_done:
  assumes "m \<noteq> Cors" and "run_middleware m q res = Done r'"
  shows "\<exists>st. r' = error_response st res"
proof (cases m)
  case Cors
  with assms(1) show ?thesis by simp
next
  case JsonParser
  with assms(2) show ?thesis
    by (auto split: if_splits payload.splits verdict.splits)
next
  case (Urlencoded extended)
  with assms(2) show ?thesis
    by (auto split: if_splits payload.splits verdict.splits)
qed

lemma parser_next:
  assumes "m \<noteq> Cors" and "run_middleware m q res = Next q' res'"
  shows "res' = res \<and> req_method q' = req_method q \<and> req_path q' = req_path q"
proof (cases m)
  case Cors
  with assms(1) show ?thesis by simp
next
  case JsonParser
  with assms(2) show ?thesis
    by (auto simp: default_body_def split: if_splits payload.splits verdict.splits)
next
  case (Urlencoded extended)
  with assms(2) show ?thesis
    by (auto simp: default_body_def split: if_splits payload.splits verdict.splits)
qed

lemma dispatch_route_cors:
  assumes "req_method q = GET" and "req_path q = ''/''"
    and "map_of (res_headers res) ''Access-Control-Allow-Origin'' = Some ''*''"
  shows "map_of (res_headers (dispatch (Rt GET ''/'' root_handler # routes) q res))
           ''Access-Control-Allow-Origin'' = Some ''*''"
  using assms
  by (simp add: root_handler_def express_send_keeps_cors root_handler_keeps_cors)

lemma dispatch_parser_cors:
  assumes "m \<noteq> Cors"
    and "map_of (res_headers res) ''Access-Control-Allow-Origin'' = Some ''*''"
    and "\<And>q'. req_method q' = req_method q \<Longrightarrow> req_path q' = req_path q \<Longrightarrow>
           map_of (res_headers (dispatch ls q' res)) ''Access-Control-Allow-Origin'' = Some ''*''"
  shows "map_of (res_headers (dispatch (Mw m # ls) q res))
           ''Access-Control-Allow-Origin'' = Some ''*''"
proof (cases "run_middleware m q res")
  case (Done r')
  from parser_done [OF assms(1) Done] obtain st where "r' = error_response st res" ..
  with Done assms(2) show ?thesis
    by (simp add: error_response_def del: run_middleware.simps)
next
  case (Next q' res')
  from parser_next [OF assms(1) Next] assms(3) Next show ?thesis
    by (simp del: run_middleware.simps)
qed

lemma dispatch_root_cors:
  assumes "req_method r = GET" and "req_path r = ''/''"
  shows "map_of (res_headers
           (dispatch (Mw Cors # Mw JsonParser # Mw (Urlencoded True)
                        # Rt GET ''/'' root_handler # routes) r res))
           ''Access-Control-Allow-Origin'' = Some ''*''"
proof -
  let ?res = "set_header ''Access-Control-Allow-Origin'' ''*'' res"
  have h: "map_of (res_headers ?res) ''Access-Control-Allow-Origin'' = Some ''*''"
    by (simp add: set_header_def update_conv')
  have "map_of (res_headers
           (dispatch (Mw JsonParser # Mw (Urlencoded True) # Rt GET ''/'' root_handler # routes)
              r ?res)) ''Access-Control-Allow-Origin'' = Some ''*''"
  proof (rule dispatch_parser_cors [OF _ h])
    show "JsonParser \<noteq> Cors" by simp
  next
    fix q' :: request
    assume q': "req_method q' = req_method r" "req_path q' = req_path r"
    show "map_of (res_headers
             (dispatch (Mw (Urlencoded True) # Rt GET ''/'' root_handler # routes) q' ?res))
             ''Access-Control-Allow-Origin'' = Some ''*''"
    proof (rule dispatch_parser_cors [OF _ h])
      show "Urlencoded True \<noteq> Cors" by simp
    next
      fix q'' :: request
      assume "req_method q'' = req_method q'" "req_path q'' = req_path q'"
      with q' assms have "req_method q'' = GET" "req_path q'' = ''/''" by simp_all
      then show "map_of (res_headers (dispatch (Rt GET ''/'' root_handler # routes) q'' ?res))
                   ''Access-Control-Allow-Origin'' = Some ''*''"
        using h by (rule dispatch_route_cors)
    qed
  qed
  then show ?thesis by simp
qed

text \<open>
  C6. Once the server is listening, every GET request to the root path, whatever its
  headers (its \<open>Origin\<close> among them), is answered with the header
  \<open>Access-Control-Allow-Origin: *\<close>: no list of allowed origins is consulted.
\<close>

theorem cors_allows_every_origin:
  assumes "run (boot env url routes) evs = Some w"
    and "listening w" and "exited w = None"
    and "req_method r = GET" and "req_path r = ''/''"
  shows "\<exists>res. serve w r = Some res
           \<and> map_of (res_headers res) ''Access-Control-Allow-Origin'' = Some ''*''"
proof -
  have st: "stack w = Mw Cors # Mw JsonParser # Mw (Urlencoded True)
              # Rt GET ''/'' root_handler # routes"
    using run_stack [OF assms(1)] by (simp add: stack_boot)
  show ?thesis
    using assms(2,3) dispatch_root_cors [OF assms(4,5)] by (simp add: serve_def st)
qed

theorem cors_allows_every_origin_witness:
  "\<exists>w. run (boot Map.empty ''mongodb://mongo:27017/dd_db'' []) [Bind, DbResolve] = Some w
      \<and> listening w \<and> exited w = None
      \<and> (\<exists>res. serve w
                  \<lparr>req_method = GET, req_path = ''/'', req_query = [],
                   req_headers = [(''Origin'', ''http://other.example'')],
                   req_payload = NoPayload, req_body = NotParsed, req_fresh = False\<rparr> = Some res
               \<and> map_of (res_headers res) ''Access-Control-Allow-Origin'' = Some ''*'')"
proof -
  obtain w where
    w: "run (boot Map.empty ''mongodb://mongo:27017/dd_db'' []) [Bind, DbResolve] = Some w"
    by (simp add: eval_defs)
  have l: "listening w" and x: "exited w = None"
    using w by (auto simp: eval_defs)
  show ?thesis
    using w l x
      cors_allows_every_origin [OF w l x, of "\<lparr>req_method = GET, req_path = ''/'', req_query = [],
                   req_headers = [(''Origin'', ''http://other.example'')],
                   req_payload = NoPayload, req_body = NotParsed, req_fresh = False\<rparr>"]
    by simp
qed

end
